theory Spec2Isabelle
  imports Complex_Main "HOL-Library.Word"
begin

section \<open>Errors\<close>

text \<open>
  Every exception that \<^verbatim>\<open>main.py\<close> raises, or lets escape from a library call, is a value.
  \<open>HTTPException\<close> carries \<^verbatim>\<open>status_code\<close> and \<^verbatim>\<open>detail\<close>.  \<open>RequestValidationError\<close> is
  what the web framework answers (422) when the request body does not validate as a
  \<^verbatim>\<open>Product\<close>; \<open>ValidationError\<close> is the model's own error when \<^verbatim>\<open>Product(...)\<close> is called
  directly.  \<open>KeyError\<close>, \<open>TypeError\<close> and \<open>DuplicateKeyError\<close> are the exceptions that
  dictionary access, subscripting \<^verbatim>\<open>None\<close> and an insert with a used \<^verbatim>\<open>_id\<close> raise.
\<close>

datatype error =
    HTTPException (status_code: nat) (detail: string)
  | ValidationError
  | RequestValidationError
  | KeyError string
  | TypeError
  | DuplicateKeyError
  | InvalidId

section \<open>The identifier: \<^verbatim>\<open>bson.ObjectId\<close>\<close>

text \<open>
  A Python \<^verbatim>\<open>str\<close> is modelled as a \<open>string\<close>: one \<open>char\<close> per code point, which covers the
  code points below 256.  Bytes are \<open>8 word\<close>.

  \<^verbatim>\<open>bytes.fromhex\<close> reads two hexadecimal digits per byte and skips ASCII whitespace
  (the characters 9 to 13 and 32) in front of a byte; a character that is neither, or a
  digit without its partner, raises \<^verbatim>\<open>ValueError\<close> (here \<open>None\<close>).
\<close>

definition hex_digit_value :: "char \<Rightarrow> nat option" where
  "hex_digit_value c =
     (let n = (of_char c :: nat) in
      if 48 \<le> n \<and> n \<le> 57 then Some (n - 48)
      else if 97 \<le> n \<and> n \<le> 102 then Some (n - 87)
      else if 65 \<le> n \<and> n \<le> 70 then Some (n - 55)
      else None)"

definition Py_ISSPACE :: "char \<Rightarrow> bool" where
  "Py_ISSPACE c = (let n = (of_char c :: nat) in (9 \<le> n \<and> n \<le> 13) \<or> n = 32)"

fun fromhex :: "string \<Rightarrow> 8 word list option" where
  "fromhex [] = Some []"
| "fromhex [c] = (if Py_ISSPACE c then Some [] else None)"
| "fromhex (c # d # ds) =
     (if Py_ISSPACE c then fromhex (d # ds)
      else case hex_digit_value c of
             None \<Rightarrow> None
           | Some hi \<Rightarrow>
               (case hex_digit_value d of
                  None \<Rightarrow> None
                | Some lo \<Rightarrow> map_option ((#) (of_nat (16 * hi + lo))) (fromhex ds)))"

text \<open>\<^verbatim>\<open>binascii.hexlify\<close>: two lower-case digits per byte, read from the digit table.\<close>

definition Py_hexdigits :: string where
  "Py_hexdigits = ''0123456789abcdef''"

definition hex_char :: "nat \<Rightarrow> char" where
  "hex_char n = Py_hexdigits ! n"

fun hexlify :: "8 word list \<Rightarrow> string" where
  "hexlify [] = []"
| "hexlify (b # bs) = hex_char (unat b div 16) # hex_char (unat b mod 16) # hexlify bs"

text \<open>
  An \<^verbatim>\<open>ObjectId\<close> holds its bytes in \<^verbatim>\<open>binary\<close>.  Built from a \<^verbatim>\<open>str\<close>, the constructor
  accepts the argument when its length is 24 and \<^verbatim>\<open>bytes.fromhex\<close> accepts it, and raises
  \<^verbatim>\<open>InvalidId\<close> otherwise.  \<^verbatim>\<open>ObjectId.is_valid\<close> is false on a falsy argument and otherwise
  tells whether the constructor returns.  \<^verbatim>\<open>str(oid)\<close> is the hexlified \<^verbatim>\<open>binary\<close>.
\<close>

datatype ObjectId = ObjectId (binary: "8 word list")

definition ObjectId_init :: "string \<Rightarrow> error + ObjectId" where
  "ObjectId_init oid =
     (if length oid = 24
      then (case fromhex oid of Some bs \<Rightarrow> Inr (ObjectId bs) | None \<Rightarrow> Inl InvalidId)
      else Inl InvalidId)"

definition is_valid :: "string \<Rightarrow> bool" where
  "is_valid oid =
     (if oid = [] then False
      else (case ObjectId_init oid of Inr _ \<Rightarrow> True | Inl _ \<Rightarrow> False))"

definition ObjectId_str :: "ObjectId \<Rightarrow> string" where
  "ObjectId_str oid = hexlify (binary oid)"

text \<open>\<^verbatim>\<open>validate_object_id\<close> of \<^verbatim>\<open>main.py\<close>.\<close>

definition validate_object_id :: "string \<Rightarrow> error + ObjectId" where
  "validate_object_id product_id =
     (if \<not> is_valid product_id then Inl (HTTPException 400 ''Invalid ObjectId'')
      else ObjectId_init product_id)"

text \<open>The vocabulary of the claims about identifiers.\<close>

definition is_hex_digit :: "char \<Rightarrow> bool" where
  "is_hex_digit c = (hex_digit_value c \<noteq> None)"

definition ascii_lower :: "char \<Rightarrow> char" where
  "ascii_lower c =
     (if 65 \<le> (of_char c :: nat) \<and> (of_char c :: nat) \<le> 90
      then char_of ((of_char c :: nat) + 32) else c)"

text \<open>
  The strings made of pairs of hexadecimal digits and of ASCII whitespace characters:
  whitespace may stand in front of any pair and at the end, never inside a pair.
  \<open>digits_of\<close> is a string without its whitespace.
\<close>

inductive hex_pairs :: "string \<Rightarrow> bool" where
  empty: "hex_pairs []"
| space: "Py_ISSPACE c \<Longrightarrow> hex_pairs s \<Longrightarrow> hex_pairs (c # s)"
| pair: "is_hex_digit c \<Longrightarrow> is_hex_digit d \<Longrightarrow> hex_pairs s \<Longrightarrow> hex_pairs (c # d # s)"

code_pred hex_pairs .

definition digits_of :: "string \<Rightarrow> string" where
  "digits_of s = filter (\<lambda>c. \<not> Py_ISSPACE c) s"

section \<open>Documents\<close>

text \<open>
  A document is a Python \<^verbatim>\<open>dict\<close> from field names to values.  The values that occur are
  identifiers, strings and floats; a float is modelled by the real number it denotes.
  Python's formatting of a float and its parsing of a float from a string are not
  modelled: both are parameters, collected in \<open>pylib\<close>, and no result depends on them.
\<close>

datatype bson_value = VObjectId ObjectId | VStr string | VFloat real

type_synonym doc = "string \<rightharpoonup> bson_value"

record pylib =
  float_repr :: "real \<Rightarrow> string"
  float_parse :: "string \<Rightarrow> real option"

definition py_str :: "pylib \<Rightarrow> bson_value \<Rightarrow> string" where
  "py_str L v =
     (case v of
        VObjectId oid \<Rightarrow> ObjectId_str oid
      | VStr s \<Rightarrow> s
      | VFloat r \<Rightarrow> float_repr L r)"

text \<open>
  \<^verbatim>\<open>serialize_doc\<close> of \<^verbatim>\<open>main.py\<close>, as a function from the argument's contents to the
  contents of the returned dictionary.  The log line reads \<^verbatim>\<open>doc['_id']\<close> first, so a
  document without that key raises \<^verbatim>\<open>KeyError\<close>.
\<close>

definition serialize_doc :: "pylib \<Rightarrow> doc \<Rightarrow> error + doc" where
  "serialize_doc L doc =
     (case doc ''_id'' of
        None \<Rightarrow> Inl (KeyError ''_id'')
      | Some v \<Rightarrow> Inr (doc(''_id'' \<mapsto> VStr (py_str L v))))"

text \<open>
  The same function on objects.  A heap is the list of the dictionaries allocated so
  far and a reference is an index into it: \<^verbatim>\<open>doc.copy()\<close> allocates a new dictionary
  with the same items, \<^verbatim>\<open>doc[k] = v\<close> writes into the dictionary the reference points
  to.  The local name \<^verbatim>\<open>doc\<close> is rebound to the copy before the write.
\<close>

type_synonym heap = "doc list"

definition dict_copy :: "heap \<Rightarrow> nat \<Rightarrow> heap \<times> nat" where
  "dict_copy h a = (h @ [h ! a], length h)"

definition dict_setitem :: "heap \<Rightarrow> nat \<Rightarrow> string \<Rightarrow> bson_value \<Rightarrow> heap" where
  "dict_setitem h a k v = h[a := (h ! a)(k \<mapsto> v)]"

definition serialize_doc_obj :: "pylib \<Rightarrow> heap \<Rightarrow> nat \<Rightarrow> error + (heap \<times> nat)" where
  "serialize_doc_obj L h a =
     (if length h \<le> a then Inl TypeError
      else case (h ! a) ''_id'' of
             None \<Rightarrow> Inl (KeyError ''_id'')
           | Some _ \<Rightarrow>
               (let (h1, b) = dict_copy h a in
                case (h1 ! b) ''_id'' of
                  None \<Rightarrow> Inl (KeyError ''_id'')
                | Some v \<Rightarrow> Inr (dict_setitem h1 b ''_id'' (VStr (py_str L v)), b)))"

section \<open>The \<^verbatim>\<open>Product\<close> model\<close>

text \<open>
  The fields of \<^verbatim>\<open>class Product\<close>.  The field \<^verbatim>\<open>id\<close> is written \<open>id'\<close>.
\<close>

record Product =
  id' :: "string option"
  name :: string
  price :: real

text \<open>
  The pattern \<^verbatim>\<open>^[a-zA-Z]+$\<close>: both ends are anchored, so the whole value is one or more
  characters of the class.  \<open>match_plus P\<close> is the anchored repetition of a character
  test, \<open>class_a_z_A_Z\<close> the two ranges of the class.
\<close>

definition class_a_z_A_Z :: "char \<Rightarrow> bool" where
  "class_a_z_A_Z c =
     (let n = (of_char c :: nat) in (97 \<le> n \<and> n \<le> 122) \<or> (65 \<le> n \<and> n \<le> 90))"

fun match_plus :: "(char \<Rightarrow> bool) \<Rightarrow> string \<Rightarrow> bool" where
  "match_plus P [] = False"
| "match_plus P [c] = P c"
| "match_plus P (c # d # ds) = (P c \<and> match_plus P (d # ds))"

text \<open>
  Field validation.  \<^verbatim>\<open>id\<close> is looked up under its alias \<^verbatim>\<open>_id\<close> first and under its own
  name second (\<^verbatim>\<open>populate_by_name\<close>); it is optional and must be a string.  \<^verbatim>\<open>name\<close> is
  required, must be a string, of length at least 1 (\<^verbatim>\<open>min_length\<close>), matching the
  pattern.  \<^verbatim>\<open>price\<close> is required and must be greater than 0 (\<^verbatim>\<open>gt\<close>); a string is
  accepted where it parses as a float.  Keys that are not fields are ignored.  Any
  failing field makes the construction raise \<^verbatim>\<open>ValidationError\<close>.
\<close>

definition validate_id :: "doc \<Rightarrow> error + string option" where
  "validate_id kwargs =
     (case (case kwargs ''_id'' of Some v \<Rightarrow> Some v | None \<Rightarrow> kwargs ''id'') of
        None \<Rightarrow> Inr None
      | Some (VStr s) \<Rightarrow> Inr (Some s)
      | Some _ \<Rightarrow> Inl ValidationError)"

definition validate_name :: "doc \<Rightarrow> error + string" where
  "validate_name kwargs =
     (case kwargs ''name'' of
        Some (VStr s) \<Rightarrow>
          (if 1 \<le> length s \<and> match_plus class_a_z_A_Z s then Inr s else Inl ValidationError)
      | _ \<Rightarrow> Inl ValidationError)"

definition validate_price :: "pylib \<Rightarrow> doc \<Rightarrow> error + real" where
  "validate_price L kwargs =
     (case kwargs ''price'' of
        Some (VFloat r) \<Rightarrow> (if 0 < r then Inr r else Inl ValidationError)
      | Some (VStr s) \<Rightarrow>
          (case float_parse L s of
             Some r \<Rightarrow> (if 0 < r then Inr r else Inl ValidationError)
           | None \<Rightarrow> Inl ValidationError)
      | _ \<Rightarrow> Inl ValidationError)"

definition Product_init :: "pylib \<Rightarrow> doc \<Rightarrow> error + Product" where
  "Product_init L kwargs =
     (case (validate_id kwargs, validate_name kwargs, validate_price L kwargs) of
        (Inr i, Inr n, Inr p) \<Rightarrow> Inr \<lparr>id' = i, name = n, price = p\<rparr>
      | _ \<Rightarrow> Inl ValidationError)"

text \<open>\<^verbatim>\<open>model_dump(by_alias=True, exclude={"_id", "id"})\<close>: the fields other than \<^verbatim>\<open>id\<close>.\<close>

definition model_dump :: "Product \<Rightarrow> doc" where
  "model_dump p = [''name'' \<mapsto> VStr (name p), ''price'' \<mapsto> VFloat (price p)]"

text \<open>\<^verbatim>\<open>Product(**serialize_doc(product))\<close>, as every handler ends.\<close>

definition Product_of_doc :: "pylib \<Rightarrow> doc \<Rightarrow> error + Product" where
  "Product_of_doc L d =
     (case serialize_doc L d of Inl e \<Rightarrow> Inl e | Inr s \<Rightarrow> Product_init L s)"

section \<open>The collection\<close>

text \<open>
  The store is the list of its documents, in the store's natural order, together with
  the log of the calls made to it.  A filter \<^verbatim>\<open>{k: v}\<close> selects the documents whose
  field \<^verbatim>\<open>k\<close> equals \<^verbatim>\<open>v\<close>; the single-document operations act on the first of them.
  \<^verbatim>\<open>insert_one\<close> gives a document without \<^verbatim>\<open>_id\<close> a new identifier, which is a parameter
  here, and refuses an \<^verbatim>\<open>_id\<close> that is in use.  Failures of the connection are outside
  the model.
\<close>

datatype store_call = Find_one | Insert_one | Find_one_and_update | Delete_one

record collection =
  documents :: "doc list"
  calls :: "store_call list"

definition matches :: "string \<Rightarrow> bson_value \<Rightarrow> doc \<Rightarrow> bool" where
  "matches k v d = (d k = Some v)"

definition called :: "store_call \<Rightarrow> collection \<Rightarrow> collection" where
  "called op c = c\<lparr>calls := calls c @ [op]\<rparr>"

definition find_one :: "string \<Rightarrow> bson_value \<Rightarrow> collection \<Rightarrow> doc option \<times> collection" where
  "find_one k v c = (List.find (matches k v) (documents c), called Find_one c)"

definition insert_one ::
  "ObjectId \<Rightarrow> doc \<Rightarrow> collection \<Rightarrow> (error + bson_value) \<times> collection" where
  "insert_one new_id data c =
     (let inserted_id = (case data ''_id'' of Some v \<Rightarrow> v | None \<Rightarrow> VObjectId new_id) in
      if list_ex (matches ''_id'' inserted_id) (documents c)
      then (Inl DuplicateKeyError, called Insert_one c)
      else (Inr inserted_id,
            called Insert_one (c\<lparr>documents := documents c @ [data(''_id'' \<mapsto> inserted_id)]\<rparr>)))"

fun update_first :: "('a \<Rightarrow> bool) \<Rightarrow> ('a \<Rightarrow> 'a) \<Rightarrow> 'a list \<Rightarrow> 'a list" where
  "update_first P f [] = []"
| "update_first P f (d # ds) = (if P d then f d # ds else d # update_first P f ds)"

fun remove_first :: "('a \<Rightarrow> bool) \<Rightarrow> 'a list \<Rightarrow> 'a list" where
  "remove_first P [] = []"
| "remove_first P (d # ds) = (if P d then ds else d # remove_first P ds)"

definition find_one_and_update ::
  "string \<Rightarrow> bson_value \<Rightarrow> doc \<Rightarrow> collection \<Rightarrow> doc option \<times> collection" where
  "find_one_and_update k v set_fields c =
     (case List.find (matches k v) (documents c) of
        None \<Rightarrow> (None, called Find_one_and_update c)
      | Some d \<Rightarrow>
          (Some (d ++ set_fields),
           called Find_one_and_update
             (c\<lparr>documents := update_first (matches k v) (\<lambda>d. d ++ set_fields) (documents c)\<rparr>)))"

definition delete_one :: "string \<Rightarrow> bson_value \<Rightarrow> collection \<Rightarrow> nat \<times> collection" where
  "delete_one k v c =
     (if list_ex (matches k v) (documents c)
      then (1, called Delete_one (c\<lparr>documents := remove_first (matches k v) (documents c)\<rparr>))
      else (0, called Delete_one c))"

section \<open>The handlers\<close>

text \<open>
  Each handler takes the collection and returns its answer and the collection after
  it.  A document that a filter on a field found has that field, so it is a non-empty
  dictionary and the test \<^verbatim>\<open>if product:\<close> is the test that a document was found.
\<close>

definition get_product ::
  "pylib \<Rightarrow> string \<Rightarrow> collection \<Rightarrow> (error + Product) \<times> collection" where
  "get_product L product_id c =
     (case validate_object_id product_id of
        Inl e \<Rightarrow> (Inl e, c)
      | Inr oid \<Rightarrow>
          (let (product, c1) = find_one ''_id'' (VObjectId oid) c in
           case product of
             Some d \<Rightarrow> (Product_of_doc L d, c1)
           | None \<Rightarrow> (Inl (HTTPException 404 ''Product not found''), c1)))"

definition create_product ::
  "pylib \<Rightarrow> ObjectId \<Rightarrow> Product \<Rightarrow> collection \<Rightarrow> (error + Product) \<times> collection" where
  "create_product L new_id product c =
     (let product_data = model_dump product;
          (existing, c1) = find_one ''name'' (VStr (name product)) c in
      case existing of
        Some _ \<Rightarrow> (Inl (HTTPException 400 ''Product already exists''), c1)
      | None \<Rightarrow>
          (case insert_one new_id product_data c1 of
             (Inl e, c2) \<Rightarrow> (Inl e, c2)
           | (Inr inserted_id, c2) \<Rightarrow>
               (let (new_product, c3) = find_one ''_id'' inserted_id c2 in
                case new_product of
                  None \<Rightarrow> (Inl TypeError, c3)
                | Some d \<Rightarrow> (Product_of_doc L d, c3))))"

definition update_product ::
  "pylib \<Rightarrow> Product \<Rightarrow> string \<Rightarrow> collection \<Rightarrow> (error + Product) \<times> collection" where
  "update_product L update_model product_id c =
     (let product_data = model_dump update_model in
      case validate_object_id product_id of
        Inl e \<Rightarrow> (Inl e, c)
      | Inr oid \<Rightarrow>
          (let (product, c1) = find_one_and_update ''_id'' (VObjectId oid) product_data c in
           case product of
             Some d \<Rightarrow> (Product_of_doc L d, c1)
           | None \<Rightarrow> (Inl (HTTPException 404 ''Product not found''), c1)))"

definition delete_product ::
  "string \<Rightarrow> collection \<Rightarrow> (error + (string \<rightharpoonup> string)) \<times> collection" where
  "delete_product product_id c =
     (case validate_object_id product_id of
        Inl e \<Rightarrow> (Inl e, c)
      | Inr oid \<Rightarrow>
          (let (deleted_count, c1) = delete_one ''_id'' (VObjectId oid) c in
           if deleted_count = 1
           then (Inr [''message'' \<mapsto> ''Product successfully deleted''], c1)
           else (Inl (HTTPException 404 ''Product not found''), c1)))"

text \<open>
  The routes \<^verbatim>\<open>POST /products\<close> and \<^verbatim>\<open>PUT /products/{product_id}\<close> declare their body as a
  \<^verbatim>\<open>Product\<close>: the framework builds the model from the body and answers with a
  validation error, without calling the handler, when that fails.
\<close>

definition POST_products ::
  "pylib \<Rightarrow> ObjectId \<Rightarrow> doc \<Rightarrow> collection \<Rightarrow> (error + Product) \<times> collection" where
  "POST_products L new_id body c =
     (case Product_init L body of
        Inl _ \<Rightarrow> (Inl RequestValidationError, c)
      | Inr product \<Rightarrow> create_product L new_id product c)"

definition PUT_products ::
  "pylib \<Rightarrow> doc \<Rightarrow> string \<Rightarrow> collection \<Rightarrow> (error + Product) \<times> collection" where
  "PUT_products L body product_id c =
     (case Product_init L body of
        Inl _ \<Rightarrow> (Inl RequestValidationError, c)
      | Inr update_model \<Rightarrow> update_product L update_model product_id c)"

text \<open>A request that can change the collection, and a sequence of them.\<close>

datatype request =
    Create ObjectId doc
  | Update doc string
  | Delete string

fun handle :: "pylib \<Rightarrow> request \<Rightarrow> collection \<Rightarrow> collection" where
  "handle L (Create new_id body) c = snd (POST_products L new_id body c)"
| "handle L (Update body product_id) c = snd (PUT_products L body product_id c)"
| "handle L (Delete product_id) c = snd (delete_product product_id c)"

fun handle_all :: "pylib \<Rightarrow> request list \<Rightarrow> collection \<Rightarrow> collection" where
  "handle_all L [] c = c"
| "handle_all L (r # rs) c = handle_all L rs (handle L r c)"

section \<open>The vocabulary of the claims\<close>

text \<open>
  An alphabetic character is one of the 52 letters.  A name is valid when it is one or
  more letters; a document is valid when its name is a valid name and its price a
  float greater than zero.
\<close>

definition alphabetic :: "char \<Rightarrow> bool" where
  "alphabetic c = (c \<in> set ''abcdefghijklmnopqrstuvwxyzABCDEFGHIJKLMNOPQRSTUVWXYZ'')"

definition valid_name :: "string \<Rightarrow> bool" where
  "valid_name s = (s \<noteq> [] \<and> list_all alphabetic s)"

definition valid_doc :: "doc \<Rightarrow> bool" where
  "valid_doc d =
     (case (d ''name'', d ''price'') of
        (Some (VStr n), Some (VFloat p)) \<Rightarrow> valid_name n \<and> 0 < p
      | _ \<Rightarrow> False)"

text \<open>
  The first document of the collection with a given identifier, and the documents with
  a given identifier.
\<close>

definition has_id :: "ObjectId \<Rightarrow> doc \<Rightarrow> bool" where
  "has_id oid d = (d ''_id'' = Some (VObjectId oid))"

definition lookup_id :: "ObjectId \<Rightarrow> collection \<Rightarrow> doc option" where
  "lookup_id oid c = List.find (has_id oid) (documents c)"

text \<open>
  An instance of the two library parameters, for evaluating the model on examples.
\<close>

definition plain_lib :: pylib where
  "plain_lib = \<lparr>float_repr = (\<lambda>r. ''float''), float_parse = (\<lambda>s. None)\<rparr>"

text \<open>
  Examples: a collection that holds milk, a second one that also holds tea, and the
  identifiers and request bodies used with them.
\<close>

definition milk_id :: ObjectId where
  "milk_id = ObjectId [0x5f, 0x9d, 0x1b, 0x3b, 0x9c, 0x9d, 0x6e, 0x1d, 0x9c, 0x9d, 0x6e, 0x1d]"

definition tea_id :: ObjectId where
  "tea_id = ObjectId [0xaa, 0xaa, 0xaa, 0xaa, 0xaa, 0xaa, 0xaa, 0xaa, 0xaa, 0xaa, 0xaa, 0xaa]"

definition milk_doc :: doc where
  "milk_doc = [''_id'' \<mapsto> VObjectId milk_id, ''name'' \<mapsto> VStr ''Milk'', ''price'' \<mapsto> VFloat 99.99]"

definition tea_doc :: doc where
  "tea_doc = [''_id'' \<mapsto> VObjectId tea_id, ''name'' \<mapsto> VStr ''Tea'', ''price'' \<mapsto> VFloat 5]"

definition milk_body :: doc where
  "milk_body = [''name'' \<mapsto> VStr ''Milk'', ''price'' \<mapsto> VFloat 99.99]"

definition tea_body :: doc where
  "tea_body = [''name'' \<mapsto> VStr ''Tea'', ''price'' \<mapsto> VFloat 5]"

definition free_body :: doc where
  "free_body = [''name'' \<mapsto> VStr ''Milk123'', ''price'' \<mapsto> VFloat 0]"

definition milk :: Product where
  "milk = \<lparr>id' = None, name = ''Milk'', price = 99.99\<rparr>"

definition tea :: Product where
  "tea = \<lparr>id' = None, name = ''Tea'', price = 5\<rparr>"

definition shop :: collection where
  "shop = \<lparr>documents = [milk_doc], calls = []\<rparr>"

definition shop2 :: collection where
  "shop2 = \<lparr>documents = [milk_doc, tea_doc], calls = []\<rparr>"

section \<open>Facts about the identifier codec\<close>

text \<open>
  The digit table and the digit values are inverse to each other, a digit is never
  whitespace, and decoding a digit gives back its lower-case form.  Both tables are
  finite and are checked by evaluation.
\<close>

lemma hex_table:
  "\<forall>n\<in>set [0..<16]. hex_digit_value (hex_char n) = Some n \<and> \<not> Py_ISSPACE (hex_char n)"
  by code_simp

lemma hex_char_value: "n < 16 \<Longrightarrow> hex_digit_value (hex_char n) = Some n"
  using hex_table by simp

lemma hex_char_not_space: "n < 16 \<Longrightarrow> \<not> Py_ISSPACE (hex_char n)"
  using hex_table by simp

lemma hex_digit_table:
  "\<forall>c::char. (case hex_digit_value c of None \<Rightarrow> True
      | Some v \<Rightarrow> v < 16 \<and> hex_char v = ascii_lower c \<and> \<not> Py_ISSPACE c)"
  by code_simp

lemma hex_digit_valueD:
  assumes "hex_digit_value c = Some v"
  shows "v < 16" and "hex_char v = ascii_lower c" and "\<not> Py_ISSPACE c"
  using assms hex_digit_table [rule_format, of c] by simp_all

lemma unat_byte_lt: "unat (b :: 8 word) < 256"
  using unsigned_less [of b, where ?'a = nat] by simp

lemma byte_split: "of_nat (16 * (unat b div 16) + unat b mod 16) = (b :: 8 word)"
  by simp

lemma fromhex_hexlify: "fromhex (hexlify bs) = Some bs"
proof (induction bs)
  case Nil
  show ?case by simp
next
  case (Cons b bs)
  have "unat b div 16 < 16" "unat b mod 16 < 16"
    using unat_byte_lt [of b] by simp_all
  then show ?case
    using Cons byte_split [of b]
    by (simp add: hex_char_value hex_char_not_space del: of_nat_add of_nat_mult)
qed

lemma length_hexlify: "length (hexlify bs) = 2 * length bs"
  by (induction bs) simp_all

lemma validate_str:
  assumes "length (binary oid) = 12"
  shows "validate_object_id (ObjectId_str oid) = Inr oid"
proof -
  have l: "length (hexlify (binary oid)) = 24" using assms by (simp add: length_hexlify)
  then have ne: "hexlify (binary oid) \<noteq> []" by auto
  show ?thesis
    using l ne
    by (simp add: validate_object_id_def is_valid_def ObjectId_init_def ObjectId_str_def
        fromhex_hexlify)
qed

lemma unat_pair:
  "hi < 16 \<Longrightarrow> lo < 16 \<Longrightarrow> unat (of_nat (16 * hi + lo) :: 8 word) = 16 * hi + lo"
  by (simp add: unat_of_nat del: of_nat_add of_nat_mult)

lemma validate_fail:
  "length s \<noteq> 24 \<or> fromhex s = None \<Longrightarrow>
   validate_object_id s = Inl (HTTPException 400 ''Invalid ObjectId'')"
  by (auto simp: validate_object_id_def is_valid_def ObjectId_init_def)

lemma hexlify_pair:
  assumes "hex_digit_value c = Some hi" and "hex_digit_value d = Some lo"
  shows "hexlify ((of_nat (16 * hi + lo) :: 8 word) # bs) = ascii_lower c # ascii_lower d # hexlify bs"
proof -
  have hi16: "hi < 16" and lo16: "lo < 16"
    using assms by (auto dest: hex_digit_valueD(1))
  have "(16 * hi + lo) div 16 = hi" "(16 * hi + lo) mod 16 = lo" using lo16 by simp_all
  then show ?thesis
    using hex_digit_valueD(2) [OF assms(1)] hex_digit_valueD(2) [OF assms(2)]
    by (simp only: hexlify.simps unat_pair [OF hi16 lo16])
qed

lemma fromhex_hex:
  "\<forall>c\<in>set s. is_hex_digit c \<Longrightarrow> even (length s) \<Longrightarrow>
   \<exists>bs. fromhex s = Some bs \<and> 2 * length bs = length s \<and> hexlify bs = map ascii_lower s"
proof (induction s rule: fromhex.induct)
  case 1
  show ?case by simp
next
  case (2 c)
  then show ?case by simp
next
  case (3 c d ds)
  from "3.prems" have hc: "is_hex_digit c" and hd: "is_hex_digit d"
    and rest: "\<forall>c\<in>set ds. is_hex_digit c" and ev: "even (length ds)"
    by simp_all
  from hc obtain hi where hi: "hex_digit_value c = Some hi" by (auto simp: is_hex_digit_def)
  from hd obtain lo where lo: "hex_digit_value d = Some lo" by (auto simp: is_hex_digit_def)
  have nsp: "\<not> Py_ISSPACE c" using hi by (rule hex_digit_valueD(3))
  from "3.IH"(2) [OF nsp hi lo rest ev]
  obtain bs where bs: "fromhex ds = Some bs" "2 * length bs = length ds"
      "hexlify bs = map ascii_lower ds"
    by blast
  have f: "fromhex (c # d # ds) = Some (of_nat (16 * hi + lo) # bs)"
    using nsp hi lo bs(1) by (simp del: of_nat_add of_nat_mult)
  have h: "hexlify ((of_nat (16 * hi + lo) :: 8 word) # bs) = map ascii_lower (c # d # ds)"
    using hexlify_pair [OF hi lo, of bs] bs(3) by simp
  have l: "2 * length (of_nat (16 * hi + lo) # bs) = length (c # d # ds)"
    using bs(2) by simp
  from f h l show ?case by blast
qed

lemma fromhex_space: "Py_ISSPACE c \<Longrightarrow> fromhex (c # s) = fromhex s"
  by (cases s) simp_all

lemma is_hex_digitD:
  assumes "is_hex_digit c"
  obtains v where "hex_digit_value c = Some v"
  using assms by (auto simp: is_hex_digit_def)

lemma fromhex_pairs:
  "hex_pairs s \<Longrightarrow> \<exists>bs. fromhex s = Some bs \<and> hexlify bs = map ascii_lower (digits_of s)"
proof (induction rule: hex_pairs.induct)
  case empty
  show ?case by (simp add: digits_of_def)
next
  case (space c s)
  then show ?case by (simp add: fromhex_space digits_of_def)
next
  case (pair c d s)
  from pair.hyps(1) obtain hi where hi: "hex_digit_value c = Some hi" by (rule is_hex_digitD)
  from pair.hyps(2) obtain lo where lo: "hex_digit_value d = Some lo" by (rule is_hex_digitD)
  have nc: "\<not> Py_ISSPACE c" and nd: "\<not> Py_ISSPACE d"
    using hi lo by (auto dest: hex_digit_valueD(3))
  from pair.IH obtain bs where bs: "fromhex s = Some bs"
      "hexlify bs = map ascii_lower (digits_of s)"
    by blast
  have f: "fromhex (c # d # s) = Some (of_nat (16 * hi + lo) # bs)"
    using nc hi lo bs(1) by (simp del: of_nat_add of_nat_mult)
  have h: "hexlify ((of_nat (16 * hi + lo) :: 8 word) # bs) = map ascii_lower (digits_of (c # d # s))"
    using hexlify_pair [OF hi lo, of bs] bs(2) nc nd by (simp add: digits_of_def)
  from f h show ?case by blast
qed

lemma pairs_fromhex: "fromhex s \<noteq> None \<Longrightarrow> hex_pairs s"
proof (induction s rule: fromhex.induct)
  case 1
  show ?case by (rule hex_pairs.empty)
next
  case (2 c)
  then have "Py_ISSPACE c" by (simp split: if_splits)
  then show ?case by (intro hex_pairs.space hex_pairs.empty)
next
  case (3 c d ds)
  show ?case
  proof (cases "Py_ISSPACE c")
    case True
    with "3.prems" have "fromhex (d # ds) \<noteq> None" by simp
    with "3.IH"(1) True have "hex_pairs (d # ds)" by blast
    with True show ?thesis by (rule hex_pairs.space)
  next
    case False
    with "3.prems" obtain hi where hi: "hex_digit_value c = Some hi"
      by (cases "hex_digit_value c") simp_all
    with False "3.prems" obtain lo where lo: "hex_digit_value d = Some lo"
      by (cases "hex_digit_value d") simp_all
    from False hi lo "3.prems" have "fromhex ds \<noteq> None"
      by (simp del: of_nat_add of_nat_mult)
    with "3.IH"(2) [OF False hi lo] have "hex_pairs ds" by blast
    moreover have "is_hex_digit c" "is_hex_digit d" using hi lo by (simp_all add: is_hex_digit_def)
    ultimately show ?thesis by (intro hex_pairs.pair)
  qed
qed

lemma hex_pairs_iff: "hex_pairs s \<longleftrightarrow> fromhex s \<noteq> None"
  using fromhex_pairs [of s] pairs_fromhex [of s] by auto

lemma digits_of_hex: "\<forall>c\<in>set s. is_hex_digit c \<Longrightarrow> digits_of s = s"
proof -
  assume a: "\<forall>c\<in>set s. is_hex_digit c"
  have "\<forall>c\<in>set s. \<not> Py_ISSPACE c"
  proof
    fix c assume "c \<in> set s"
    with a have "is_hex_digit c" by blast
    then obtain v where "hex_digit_value c = Some v" by (rule is_hex_digitD)
    then show "\<not> Py_ISSPACE c" by (rule hex_digit_valueD(3))
  qed
  then show ?thesis by (simp add: digits_of_def filter_id_conv)
qed


section \<open>The identifier codec: claim C2\<close>

text \<open>
  Claim C2, as the code has it.  A string of 24 hexadecimal digits validates, to the
  identifier of 12 bytes whose string form is the lower-cased input.  Validation
  succeeds exactly on the strings of length 24 that are made of pairs of hexadecimal
  digits and ASCII whitespace, and returns the identifier whose bytes are those pairs;
  every other string is refused with status 400 and detail \<^verbatim>\<open>Invalid ObjectId\<close>.
\<close>

theorem validate_object_id_hex:
  "(length s = 24 \<and> (\<forall>c\<in>set s. is_hex_digit c) \<longrightarrow>
      (\<exists>oid. validate_object_id s = Inr oid \<and> length (binary oid) = 12 \<and>
             ObjectId_str oid = map ascii_lower s)) \<and>
   (length s = 24 \<and> hex_pairs s \<longrightarrow>
      (\<exists>oid. validate_object_id s = Inr oid \<and>
             ObjectId_str oid = map ascii_lower (digits_of s))) \<and>
   (\<not> (length s = 24 \<and> hex_pairs s) \<longrightarrow>
      validate_object_id s = Inl (HTTPException 400 ''Invalid ObjectId''))"
proof (intro conjI impI)
  assume a: "length s = 24 \<and> (\<forall>c\<in>set s. is_hex_digit c)"
  then have len: "length s = 24" and hex: "\<forall>c\<in>set s. is_hex_digit c" by simp_all
  from len have "even (length s)" by simp
  with hex obtain bs where f: "fromhex s = Some bs" and l: "2 * length bs = length s"
      and h: "hexlify bs = map ascii_lower s"
    using fromhex_hex [of s] by blast
  from len have ne: "s \<noteq> []" by auto
  have v: "validate_object_id s = Inr (ObjectId bs)"
    unfolding validate_object_id_def is_valid_def ObjectId_init_def
    by (simp add: len ne f)
  have "length bs = 12" using l len by arith
  with v h show "\<exists>oid. validate_object_id s = Inr oid \<and> length (binary oid) = 12 \<and>
             ObjectId_str oid = map ascii_lower s"
    by (simp add: ObjectId_str_def)
next
  assume a: "length s = 24 \<and> hex_pairs s"
  then have len: "length s = 24" and hp: "hex_pairs s" by simp_all
  from fromhex_pairs [OF hp] obtain bs where f: "fromhex s = Some bs"
      and h: "hexlify bs = map ascii_lower (digits_of s)"
    by blast
  from len have ne: "s \<noteq> []" by auto
  have v: "validate_object_id s = Inr (ObjectId bs)"
    unfolding validate_object_id_def is_valid_def ObjectId_init_def
    by (simp add: len ne f)
  with h show "\<exists>oid. validate_object_id s = Inr oid \<and>
             ObjectId_str oid = map ascii_lower (digits_of s)"
    by (simp add: ObjectId_str_def)
next
  assume b: "\<not> (length s = 24 \<and> hex_pairs s)"
  show "validate_object_id s = Inl (HTTPException 400 ''Invalid ObjectId'')"
  proof (cases "length s = 24")
    case False
    then show ?thesis by (simp add: validate_fail)
  next
    case True
    with b have "\<not> hex_pairs s" by simp
    then have "fromhex s = None" by (simp add: hex_pairs_iff)
    then show ?thesis by (simp add: validate_fail)
  qed
qed

text \<open>
  The identifier of the test suite validates; eight pairs separated by spaces validate;
  a space inside a pair and \<^verbatim>\<open>invalid\<close> are refused.
\<close>

theorem validate_object_id_hex_witness:
  "(length ''5f9d1b3b9c9d6e1d9c9d6e1d'' = 24 \<and>
    list_all is_hex_digit ''5f9d1b3b9c9d6e1d9c9d6e1d'') \<and>
   (\<exists>oid. validate_object_id ''5f9d1b3b9c9d6e1d9c9d6e1d'' = Inr oid \<and> length (binary oid) = 12 \<and>
       ObjectId_str oid = map ascii_lower ''5f9d1b3b9c9d6e1d9c9d6e1d'') \<and>
   (length ''5f 9d 1b 3b 9c 9d 6e 1d '' = 24 \<and> hex_pairs ''5f 9d 1b 3b 9c 9d 6e 1d '') \<and>
   (\<exists>oid. validate_object_id ''5f 9d 1b 3b 9c 9d 6e 1d '' = Inr oid \<and>
       ObjectId_str oid = map ascii_lower (digits_of ''5f 9d 1b 3b 9c 9d 6e 1d '')) \<and>
   \<not> (length ''5 f9d1b3b9c9d6e1d9c9d6e1'' = 24 \<and> hex_pairs ''5 f9d1b3b9c9d6e1d9c9d6e1'') \<and>
   validate_object_id ''5 f9d1b3b9c9d6e1d9c9d6e1'' = Inl (HTTPException 400 ''Invalid ObjectId'') \<and>
   \<not> (length ''invalid'' = 24 \<and> hex_pairs ''invalid'') \<and>
   validate_object_id ''invalid'' = Inl (HTTPException 400 ''Invalid ObjectId'')"
proof -
  have h0: "length ''5f9d1b3b9c9d6e1d9c9d6e1d'' = 24 \<and>
    list_all is_hex_digit ''5f9d1b3b9c9d6e1d9c9d6e1d''"
    by code_simp
  then have h1: "length ''5f9d1b3b9c9d6e1d9c9d6e1d'' = 24 \<and>
    (\<forall>c\<in>set ''5f9d1b3b9c9d6e1d9c9d6e1d''. is_hex_digit c)"
    unfolding list_all_iff .
  have p: "fromhex ''5f 9d 1b 3b 9c 9d 6e 1d '' \<noteq> None" by code_simp
  have h2: "length ''5f 9d 1b 3b 9c 9d 6e 1d '' = 24 \<and> hex_pairs ''5f 9d 1b 3b 9c 9d 6e 1d ''"
    using p by (simp add: hex_pairs_iff)
  have q: "fromhex ''5 f9d1b3b9c9d6e1d9c9d6e1'' = None" by code_simp
  have h3: "\<not> (length ''5 f9d1b3b9c9d6e1d9c9d6e1'' = 24 \<and> hex_pairs ''5 f9d1b3b9c9d6e1d9c9d6e1'')"
    using q by (simp add: hex_pairs_iff)
  have h4: "\<not> (length ''invalid'' = 24 \<and> hex_pairs ''invalid'')" by simp
  note t1 = validate_object_id_hex [of "''5f9d1b3b9c9d6e1d9c9d6e1d''", THEN conjunct1, THEN mp, OF h1]
  note t2 = validate_object_id_hex [of "''5f 9d 1b 3b 9c 9d 6e 1d ''", THEN conjunct2, THEN conjunct1, THEN mp, OF h2]
  note t3 = validate_object_id_hex [of "''5 f9d1b3b9c9d6e1d9c9d6e1''", THEN conjunct2, THEN conjunct2, THEN mp, OF h3]
  note t4 = validate_object_id_hex [of "''invalid''", THEN conjunct2, THEN conjunct2, THEN mp, OF h4]
  show ?thesis
    by (rule conjI [OF h0 conjI [OF t1 conjI [OF h2 conjI [OF t2 conjI [OF h3 conjI [OF t3
        conjI [OF h4 t4]]]]]]])
qed

text \<open>
  Claim C2 as stated fails: 22 hexadecimal digits followed by two spaces have length
  24, are not all hexadecimal digits, and validate, to an identifier of 11 bytes.
\<close>

theorem validate_object_id_whitespace:
  "length ''5f9d1b3b9c9d6e1d9c9d6e  '' = 24 \<and>
   \<not> is_hex_digit (''5f9d1b3b9c9d6e1d9c9d6e  '' ! 23) \<and>
   validate_object_id ''5f9d1b3b9c9d6e1d9c9d6e  '' =
     Inr (ObjectId [0x5f, 0x9d, 0x1b, 0x3b, 0x9c, 0x9d, 0x6e, 0x1d, 0x9c, 0x9d, 0x6e])"
  by code_simp

section \<open>The product model: claim C1\<close>

lemma match_plus_iff: "match_plus P s \<longleftrightarrow> s \<noteq> [] \<and> list_all P s"
  by (induction P s rule: match_plus.induct) auto

lemma class_table: "\<forall>c::char. class_a_z_A_Z c = alphabetic c \<and> (Py_ISSPACE c \<longrightarrow> \<not> alphabetic c)"
  by code_simp

lemma class_alphabetic: "class_a_z_A_Z = alphabetic"
  using class_table by auto

lemma space_not_alphabetic: "Py_ISSPACE c \<Longrightarrow> \<not> alphabetic c"
  using class_table by blast

lemma name_check: "(1 \<le> length s \<and> match_plus class_a_z_A_Z s) = valid_name s"
  by (cases s) (simp_all add: valid_name_def match_plus_iff class_alphabetic)

lemma validate_name_iff:
  "validate_name kw =
     (case kw ''name'' of
        Some (VStr s) \<Rightarrow> if valid_name s then Inr s else Inl ValidationError
      | _ \<Rightarrow> Inl ValidationError)"
  unfolding validate_name_def name_check ..

text \<open>
  Claim C1.  \<^verbatim>\<open>Product(name=n, price=p)\<close> returns the product exactly when \<open>n\<close> is one or
  more alphabetic characters and \<open>p\<close> is greater than zero, and raises
  \<^verbatim>\<open>ValidationError\<close> otherwise: for the empty name, for a name of whitespace, for a name
  with any other non-alphabetic character, and for a price that is zero or negative.
\<close>

theorem Product_construction:
  "Product_init L [''name'' \<mapsto> VStr n, ''price'' \<mapsto> VFloat p] =
     (if n \<noteq> [] \<and> (\<forall>c\<in>set n. alphabetic c) \<and> 0 < p
      then Inr \<lparr>id' = None, name = n, price = p\<rparr> else Inl ValidationError)"
  by (simp add: Product_init_def validate_id_def validate_price_def validate_name_iff
      valid_name_def list_all_iff)

text \<open>The examples of the claim: \<^verbatim>\<open>Milk\<close> at 99.99, three spaces, \<^verbatim>\<open>Milk123\<close>, the empty
  name, and the prices 0 and -1.\<close>

theorem Product_construction_witness:
  "Product_init plain_lib [''name'' \<mapsto> VStr ''Milk'', ''price'' \<mapsto> VFloat 99.99] =
     Inr \<lparr>id' = None, name = ''Milk'', price = 99.99\<rparr> \<and>
   Product_init plain_lib [''name'' \<mapsto> VStr ''   '', ''price'' \<mapsto> VFloat 99.99] = Inl ValidationError \<and>
   Product_init plain_lib [''name'' \<mapsto> VStr ''Milk123'', ''price'' \<mapsto> VFloat 99.99] = Inl ValidationError \<and>
   Product_init plain_lib [''name'' \<mapsto> VStr '''', ''price'' \<mapsto> VFloat 99.99] = Inl ValidationError \<and>
   Product_init plain_lib [''name'' \<mapsto> VStr ''Milk'', ''price'' \<mapsto> VFloat 0] = Inl ValidationError \<and>
   Product_init plain_lib [''name'' \<mapsto> VStr ''Milk'', ''price'' \<mapsto> VFloat (- 1)] = Inl ValidationError"
  using Product_construction [of plain_lib "''Milk''" "99.99"] Product_construction [of plain_lib "''   ''" "99.99"]
    Product_construction [of plain_lib "''Milk123''" "99.99"] Product_construction [of plain_lib "''''" "99.99"]
    Product_construction [of plain_lib "''Milk''" "0"] Product_construction [of plain_lib "''Milk''" "- 1"]
  by (simp add: alphabetic_def)

section \<open>The serializer: claim C9\<close>

text \<open>
  Claim C9.  For a dictionary with a native identifier under \<^verbatim>\<open>_id\<close>, \<^verbatim>\<open>serialize_doc\<close>
  returns a reference to a new dictionary; every dictionary that existed, the argument
  included, is as it was; the new one has the string form of the identifier under
  \<^verbatim>\<open>_id\<close> and the argument's value under every other key.
\<close>

theorem serialize_doc_copy:
  assumes "a < length h" and "(h ! a) ''_id'' = Some (VObjectId oid)"
  shows "\<exists>h'. serialize_doc_obj L h a = Inr (h', length h) \<and>
           length h' = Suc (length h) \<and>
           h' ! a = h ! a \<and>
           (\<forall>b < length h. h' ! b = h ! b) \<and>
           (h' ! length h) ''_id'' = Some (VStr (ObjectId_str oid)) \<and>
           (\<forall>k. k \<noteq> ''_id'' \<longrightarrow> (h' ! length h) k = (h ! a) k) \<and>
           serialize_doc L (h ! a) = Inr (h' ! length h)"
proof -
  let ?d = "(h ! a)(''_id'' \<mapsto> VStr (ObjectId_str oid))"
  have r: "serialize_doc_obj L h a = Inr (h @ [?d], length h)"
    using assms
    by (simp add: serialize_doc_obj_def dict_copy_def dict_setitem_def py_str_def)
  have s: "serialize_doc L (h ! a) = Inr ?d"
    using assms by (simp add: serialize_doc_def py_str_def)
  show ?thesis
    using r s assms(1) by (simp add: nth_append)
qed

text \<open>A heap of one dictionary with a three-byte identifier and a name.\<close>

theorem serialize_doc_copy_witness:
  "(0::nat) < length [[''_id'' \<mapsto> VObjectId (ObjectId [0x5f, 0x9d, 0x1b]), ''name'' \<mapsto> VStr ''Milk'']] \<and>
   ([[''_id'' \<mapsto> VObjectId (ObjectId [0x5f, 0x9d, 0x1b]), ''name'' \<mapsto> VStr ''Milk'']] ! 0) ''_id'' =
       Some (VObjectId (ObjectId [0x5f, 0x9d, 0x1b])) \<and>
   serialize_doc_obj plain_lib
       [[''_id'' \<mapsto> VObjectId (ObjectId [0x5f, 0x9d, 0x1b]), ''name'' \<mapsto> VStr ''Milk'']] 0 =
     Inr ([[''_id'' \<mapsto> VObjectId (ObjectId [0x5f, 0x9d, 0x1b]), ''name'' \<mapsto> VStr ''Milk''],
           [''_id'' \<mapsto> VStr ''5f9d1b'', ''name'' \<mapsto> VStr ''Milk'']], 1)"
proof -
  let ?d = "[''_id'' \<mapsto> VObjectId (ObjectId [0x5f, 0x9d, 0x1b]), ''name'' \<mapsto> VStr ''Milk'']"
  have h1: "(0::nat) < length [?d]" by simp
  have h2: "([?d] ! 0) ''_id'' = Some (VObjectId (ObjectId [0x5f, 0x9d, 0x1b]))" by simp
  have e: "ObjectId_str (ObjectId [0x5f, 0x9d, 0x1b]) = ''5f9d1b''" by code_simp
  from serialize_doc_copy [OF h1 h2, of plain_lib] obtain h' where
    r: "serialize_doc_obj plain_lib [?d] 0 = Inr (h', length [?d])"
    and s: "serialize_doc plain_lib ([?d] ! 0) = Inr (h' ! length [?d])"
    and l: "length h' = Suc (length [?d])" and k: "h' ! 0 = [?d] ! 0"
    by blast
  have "h' ! 1 = [''_id'' \<mapsto> VStr ''5f9d1b'', ''name'' \<mapsto> VStr ''Milk'']"
    using s e by (simp add: serialize_doc_def py_str_def fun_upd_twist)
  moreover from l k have "h' = [h' ! 0, h' ! 1]"
    by (cases h'; simp) (metis length_0_conv length_Suc_conv list.inject nth_Cons_0 nth_Cons_Suc One_nat_def)
  ultimately have "h' = [?d, [''_id'' \<mapsto> VStr ''5f9d1b'', ''name'' \<mapsto> VStr ''Milk'']]"
    using k by simp
  with r h1 h2 show ?thesis by simp
qed

section \<open>Facts about the collection and the handlers\<close>

lemma validate_object_id_cases:
  "validate_object_id s = Inl (HTTPException 400 ''Invalid ObjectId'') \<and> \<not> is_valid s \<or>
   (\<exists>oid. validate_object_id s = Inr oid \<and> is_valid s)"
  by (cases "ObjectId_init s") (simp_all add: validate_object_id_def is_valid_def)

lemma validate_Inr_valid: "validate_object_id s = Inr oid \<Longrightarrow> is_valid s"
  using validate_object_id_cases [of s] by auto

lemma Product_init_valid:
  assumes "Product_init L kw = Inr p"
  shows "valid_name (name p)" and "0 < price p"
  using assms
  by (auto simp: Product_init_def validate_name_iff validate_price_def
      split: sum.splits option.splits bson_value.splits if_splits)

lemma Product_of_doc_ok:
  assumes "d ''_id'' = Some (VObjectId oid)" and "d ''name'' = Some (VStr n)"
    and "d ''price'' = Some (VFloat p)" and "valid_name n" and "0 < p"
  shows "Product_of_doc L d = Inr \<lparr>id' = Some (ObjectId_str oid), name = n, price = p\<rparr>"
  using assms
  by (simp add: Product_of_doc_def serialize_doc_def py_str_def Product_init_def
      validate_id_def validate_name_iff validate_price_def)

lemma matches_id: "matches ''_id'' (VObjectId oid) = has_id oid"
  by (simp add: fun_eq_iff matches_def has_id_def)

lemma update_first_nth:
  "i < length xs \<Longrightarrow> P (xs ! i) \<Longrightarrow> \<forall>j<i. \<not> P (xs ! j) \<Longrightarrow>
   update_first P f xs = xs[i := f (xs ! i)]"
proof (induction xs arbitrary: i)
  case Nil
  then show ?case by simp
next
  case (Cons x xs)
  show ?case
  proof (cases i)
    case 0
    with Cons.prems show ?thesis by simp
  next
    case (Suc k)
    from Cons.prems(3) Suc have nx: "\<not> P x" by auto
    have "\<forall>j<k. \<not> P (xs ! j)"
    proof (intro allI impI)
      fix j assume "j < k"
      then have "Suc j < i" using Suc by simp
      with Cons.prems(3) have "\<not> P ((x # xs) ! Suc j)" by blast
      then show "\<not> P (xs ! j)" by simp
    qed
    with Cons.IH [of k] Cons.prems(1,2) Suc nx show ?thesis by simp
  qed
qed

lemma set_update_first: "y \<in> set (update_first P f xs) \<Longrightarrow> y \<in> set xs \<or> y \<in> f ` set xs"
  by (induction xs) (auto split: if_splits)

lemma set_remove_first: "y \<in> set (remove_first P xs) \<Longrightarrow> y \<in> set xs"
  by (induction xs) (auto split: if_splits)

lemma remove_first_single:
  "length (filter P xs) = 1 \<Longrightarrow> remove_first P xs = filter (\<lambda>x. \<not> P x) xs"
proof (induction xs)
  case Nil
  then show ?case by simp
next
  case (Cons x xs)
  show ?case
  proof (cases "P x")
    case True
    with Cons.prems have "filter P xs = []" by simp
    then have "\<forall>y\<in>set xs. \<not> P y" by (simp add: filter_empty_conv)
    then have "filter (\<lambda>x. \<not> P x) xs = xs" by (simp add: filter_id_conv)
    with True show ?thesis by simp
  next
    case False
    with Cons show ?thesis by simp
  qed
qed

lemma find_unmatched_append:
  "\<forall>x\<in>set xs. \<not> P x \<Longrightarrow> List.find P (xs @ ys) = List.find P ys"
  by (induction xs) simp_all

lemma update_product_result:
  assumes v: "validate_object_id pid = Inr oid" and f: "lookup_id oid c = Some d"
  shows "\<exists>i<length (documents c). documents c ! i = d \<and> has_id oid d \<and>
           (\<forall>j<i. \<not> has_id oid (documents c ! j)) \<and>
           fst (update_product L p pid c) = Product_of_doc L (d ++ model_dump p) \<and>
           documents (snd (update_product L p pid c)) = (documents c)[i := d ++ model_dump p] \<and>
           calls (snd (update_product L p pid c)) = calls c @ [Find_one_and_update]"
proof -
  from f obtain i where i: "i < length (documents c)" "has_id oid (documents c ! i)"
      "d = documents c ! i" "\<forall>j<i. \<not> has_id oid (documents c ! j)"
    unfolding lookup_id_def find_Some_iff by blast
  have u: "update_first (has_id oid) (\<lambda>d. d ++ model_dump p) (documents c) =
      (documents c)[i := d ++ model_dump p]"
    using update_first_nth [of i "documents c" "has_id oid" "\<lambda>d. d ++ model_dump p"] i
    by simp
  have r: "update_product L p pid c =
      (Product_of_doc L (d ++ model_dump p),
       called Find_one_and_update (c\<lparr>documents := (documents c)[i := d ++ model_dump p]\<rparr>))"
    using v f u
    by (simp add: update_product_def find_one_and_update_def matches_id lookup_id_def Let_def)
  show ?thesis
    using i r by (auto simp: called_def)
qed


lemma delete_product_eq:
  assumes "validate_object_id pid = Inr oid"
  shows "delete_product pid c =
     (if list_ex (has_id oid) (documents c)
      then (Inr [''message'' \<mapsto> ''Product successfully deleted''],
            called Delete_one (c\<lparr>documents := remove_first (has_id oid) (documents c)\<rparr>))
      else (Inl (HTTPException 404 ''Product not found''), called Delete_one c))"
  using assms by (simp add: delete_product_def delete_one_def matches_id)

lemma map_add_dump:
  "d ++ model_dump p = d(''name'' \<mapsto> VStr (name p), ''price'' \<mapsto> VFloat (price p))"
  by (simp add: model_dump_def)

lemma valid_doc_dump:
  assumes "Product_init L body = Inr p"
  shows "valid_doc (d ++ model_dump p)" and "valid_doc ((model_dump p)(''_id'' \<mapsto> v))"
  using Product_init_valid [OF assms] by (simp_all add: valid_doc_def model_dump_def)

lemma create_product_documents:
  "documents (snd (create_product L i p c)) = documents c \<or>
   documents (snd (create_product L i p c)) =
     documents c @ [(model_dump p)(''_id'' \<mapsto> VObjectId i)]"
  by (auto simp: create_product_def find_one_def insert_one_def Let_def called_def model_dump_def
      split: option.splits)

lemma update_product_documents:
  "documents (snd (update_product L p pid c)) = documents c \<or>
   (\<exists>P. documents (snd (update_product L p pid c)) =
      update_first P (\<lambda>d. d ++ model_dump p) (documents c))"
  by (auto simp: update_product_def find_one_and_update_def Let_def called_def
      split: option.splits sum.splits)

lemma delete_product_documents:
  "documents (snd (delete_product pid c)) = documents c \<or>
   (\<exists>P. documents (snd (delete_product pid c)) = remove_first P (documents c))"
  by (auto simp: delete_product_def delete_one_def Let_def called_def split: sum.splits)

lemma handle_valid:
  assumes "\<forall>d\<in>set (documents c). valid_doc d"
  shows "\<forall>d\<in>set (documents (handle L r c)). valid_doc d"
proof (cases r)
  case (Create new_id body)
  show ?thesis
  proof (cases "Product_init L body")
    case (Inl e)
    with Create assms show ?thesis by (simp add: POST_products_def)
  next
    case (Inr p)
    with Create have h: "handle L r c = snd (create_product L new_id p c)"
      by (simp add: POST_products_def)
    from create_product_documents [of L new_id p c] assms valid_doc_dump(2) [OF Inr]
    show ?thesis unfolding h by auto
  qed
next
  case (Update body pid)
  show ?thesis
  proof (cases "Product_init L body")
    case (Inl e)
    with Update assms show ?thesis by (simp add: PUT_products_def)
  next
    case (Inr p)
    with Update have h: "handle L r c = snd (update_product L p pid c)"
      by (simp add: PUT_products_def)
    from update_product_documents [of L p pid c] assms valid_doc_dump(1) [OF Inr]
    show ?thesis unfolding h by (auto dest!: set_update_first)
  qed
next
  case (Delete pid)
  from delete_product_documents [of pid c] assms
  show ?thesis unfolding Delete by (auto dest!: set_remove_first)
qed

text \<open>The examples: their identifiers validate, their bodies are products.\<close>

lemma ex_milk_pid: "validate_object_id ''5f9d1b3b9c9d6e1d9c9d6e1d'' = Inr milk_id"
  by code_simp

lemma ex_tea_pid: "validate_object_id ''aaaaaaaaaaaaaaaaaaaaaaaa'' = Inr tea_id"
  by code_simp

lemma ex_ids: "milk_id \<noteq> tea_id"
  by (simp add: milk_id_def tea_id_def)


lemma ex_lookup_tea: "lookup_id tea_id shop = None"
  using ex_ids by (simp add: lookup_id_def shop_def has_id_def milk_doc_def)

lemma ex_valid_milk: "valid_doc milk_doc"
  by (simp add: valid_doc_def milk_doc_def valid_name_def alphabetic_def)

lemma ex_init_milk: "Product_init plain_lib milk_body = Inr milk"
  by (simp add: Product_init_def validate_id_def validate_name_def validate_price_def
      milk_body_def milk_def class_a_z_A_Z_def)

lemma ex_init_tea: "Product_init plain_lib tea_body = Inr tea"
  by (simp add: Product_init_def validate_id_def validate_name_def validate_price_def
      tea_body_def tea_def class_a_z_A_Z_def)

lemma ex_lookup_tea2: "lookup_id tea_id shop2 = Some tea_doc"
  using ex_ids by (simp add: lookup_id_def shop2_def has_id_def milk_doc_def tea_doc_def)

lemma ex_docs_differ: "milk_doc \<noteq> tea_doc"
proof
  assume "milk_doc = tea_doc"
  then have "milk_doc ''_id'' = tea_doc ''_id''" by simp
  then show False using ex_ids by (simp add: milk_doc_def tea_doc_def)
qed

section \<open>Create: claims C3 and C8\<close>

text \<open>
  Claim C3.  When some document of the collection has the name of the product, the
  create handler raises \<^verbatim>\<open>HTTPException(400, "Product already exists")\<close>; the documents
  of the collection, and so their number, are as before, and the only call made to the
  store is the \<^verbatim>\<open>find_one\<close> of the check.  A request with a valid body is answered by
  the handler.
\<close>

theorem create_product_conflict:
  assumes "d \<in> set (documents c)" and "d ''name'' = Some (VStr (name product))"
  shows "fst (create_product L new_id product c) = Inl (HTTPException 400 ''Product already exists'') \<and>
         documents (snd (create_product L new_id product c)) = documents c \<and>
         length (documents (snd (create_product L new_id product c))) = length (documents c) \<and>
         calls (snd (create_product L new_id product c)) = calls c @ [Find_one] \<and>
         (Product_init L body = Inr product \<longrightarrow>
            POST_products L new_id body c = create_product L new_id product c)"
proof -
  have "List.find (matches ''name'' (VStr (name product))) (documents c) \<noteq> None"
    using assms by (auto simp: find_None_iff matches_def)
  then obtain e where "List.find (matches ''name'' (VStr (name product))) (documents c) = Some e"
    by auto
  then show ?thesis
    by (simp add: create_product_def find_one_def Let_def called_def POST_products_def)
qed

text \<open>
  Milk is created in the collection that holds milk.
\<close>

theorem create_product_conflict_witness:
  "milk_doc \<in> set (documents shop) \<and>
   milk_doc ''name'' = Some (VStr (name milk)) \<and>
   fst (create_product plain_lib tea_id milk shop) =
     Inl (HTTPException 400 ''Product already exists'') \<and>
   documents (snd (create_product plain_lib tea_id milk shop)) = documents shop \<and>
   length (documents (snd (create_product plain_lib tea_id milk shop))) = length (documents shop) \<and>
   calls (snd (create_product plain_lib tea_id milk shop)) = calls shop @ [Find_one] \<and>
   Product_init plain_lib milk_body = Inr milk \<and>
   POST_products plain_lib tea_id milk_body shop = create_product plain_lib tea_id milk shop"
proof -
  have h1: "milk_doc \<in> set (documents shop)" by (simp add: shop_def)
  have h2: "milk_doc ''name'' = Some (VStr (name milk))" by (simp add: milk_doc_def milk_def)
  note t = create_product_conflict [OF h1 h2, of plain_lib tea_id milk_body]
  note p = t [THEN conjunct2, THEN conjunct2, THEN conjunct2, THEN conjunct2, THEN mp,
      OF ex_init_milk]
  show ?thesis
    by (rule conjI [OF h1 conjI [OF h2 conjI [OF t [THEN conjunct1]
        conjI [OF t [THEN conjunct2, THEN conjunct1]
        conjI [OF t [THEN conjunct2, THEN conjunct2, THEN conjunct1]
        conjI [OF t [THEN conjunct2, THEN conjunct2, THEN conjunct2, THEN conjunct1]
        conjI [OF ex_init_milk p]]]]]]])
qed

text \<open>
  Claim C8.  For a valid body whose name no document has, with the store assigning an
  unused identifier of 12 bytes, the create request returns a product with the name and
  price of the body and an identifier; the get request for that identifier, on the
  collection after the create, returns the same product.
\<close>

theorem create_then_get:
  assumes b: "Product_init L body = Inr p"
    and nn: "\<forall>d\<in>set (documents c). d ''name'' \<noteq> Some (VStr (name p))"
    and fr: "\<forall>d\<in>set (documents c). \<not> has_id new_id d"
    and len: "length (binary new_id) = 12"
  shows "\<exists>q i c1 c2. POST_products L new_id body c = (Inr q, c1) \<and> id' q = Some i \<and>
           name q = name p \<and> price q = price p \<and> get_product L i c1 = (Inr q, c2)"
proof -
  let ?nd = "(model_dump p)(''_id'' \<mapsto> VObjectId new_id)"
  let ?q = "\<lparr>id' = Some (ObjectId_str new_id), name = name p, price = price p\<rparr>"
  let ?c1 = "called Find_one (called Insert_one
      ((called Find_one c)\<lparr>documents := documents c @ [?nd]\<rparr>))"
  have f1: "List.find (matches ''name'' (VStr (name p))) (documents c) = None"
    using nn by (simp add: find_None_iff matches_def)
  have f2: "\<not> list_ex (has_id new_id) (documents c)"
    using fr by (simp add: list_ex_iff)
  have hn: "has_id new_id ?nd" by (simp add: has_id_def)
  have f3: "List.find (has_id new_id) (documents c @ [?nd]) = Some ?nd"
    using find_unmatched_append [of "documents c" "has_id new_id" "[?nd]"] fr hn by simp
  have pd: "Product_of_doc L ?nd = Inr ?q"
    using Product_init_valid [OF b]
    by (intro Product_of_doc_ok) (simp_all add: model_dump_def)
  have cr: "create_product L new_id p c = (Inr ?q, ?c1)"
    using f1 f2 f3 pd
    by (simp add: create_product_def find_one_def insert_one_def Let_def called_def matches_id
        model_dump_def)
  have g: "get_product L (ObjectId_str new_id) ?c1 = (Inr ?q, called Find_one ?c1)"
    using validate_str [OF len] f3 pd
    by (simp add: get_product_def find_one_def matches_id called_def)
  from cr b have "POST_products L new_id body c = (Inr ?q, ?c1)"
    by (simp add: POST_products_def)
  with g show ?thesis by force
qed

text \<open>
  Tea is created in the collection that holds milk, and read back.
\<close>

theorem create_then_get_witness:
  "Product_init plain_lib tea_body = Inr tea \<and>
   list_all (\<lambda>d. d ''name'' \<noteq> Some (VStr (name tea))) (documents shop) \<and>
   list_all (\<lambda>d. \<not> has_id tea_id d) (documents shop) \<and>
   length (binary tea_id) = 12 \<and>
   (\<exists>q i c1 c2. POST_products plain_lib tea_id tea_body shop = (Inr q, c1) \<and> id' q = Some i \<and>
      name q = name tea \<and> price q = price tea \<and> get_product plain_lib i c1 = (Inr q, c2))"
proof -
  have h2: "list_all (\<lambda>d. d ''name'' \<noteq> Some (VStr (name tea))) (documents shop)"
    by (simp add: shop_def milk_doc_def tea_def)
  have h3: "list_all (\<lambda>d. \<not> has_id tea_id d) (documents shop)"
    using ex_ids by (simp add: shop_def milk_doc_def has_id_def)
  have h4: "length (binary tea_id) = 12" by (simp add: tea_id_def)
  note t = create_then_get [OF ex_init_tea h2 [unfolded list_all_iff] h3 [unfolded list_all_iff] h4]
  show ?thesis
    by (rule conjI [OF ex_init_tea conjI [OF h2 conjI [OF h3 conjI [OF h4 t]]]])
qed

section \<open>Get: claim C5\<close>




section \<open>Update: claims C6 and C10\<close>

text \<open>
  Claim C6.  For a valid body and an identifier that validates: when a document has
  the identifier, the request replaces the first such document by itself with the name
  and price of the body, and returns the product with the identifier, that name and
  that price; when none has it, the request raises
  \<^verbatim>\<open>HTTPException(404, "Product not found")\<close> and the documents are as before.  No
  condition on the names of the other documents enters.
\<close>

theorem update_product_cases:
  assumes "Product_init L body = Inr p" and "validate_object_id pid = Inr oid"
  shows "(\<forall>d. lookup_id oid c = Some d \<longrightarrow>
            (\<exists>i<length (documents c). documents c ! i = d \<and>
               (\<forall>j<i. \<not> has_id oid (documents c ! j)) \<and>
               fst (PUT_products L body pid c) =
                 Inr \<lparr>id' = Some (ObjectId_str oid), name = name p, price = price p\<rparr> \<and>
               documents (snd (PUT_products L body pid c)) =
                 (documents c)[i := d(''name'' \<mapsto> VStr (name p), ''price'' \<mapsto> VFloat (price p))])) \<and>
         (lookup_id oid c = None \<longrightarrow>
            fst (PUT_products L body pid c) = Inl (HTTPException 404 ''Product not found'') \<and>
            documents (snd (PUT_products L body pid c)) = documents c)"
proof (intro conjI allI impI)
  fix d assume f: "lookup_id oid c = Some d"
  from update_product_result [OF assms(2) f, of L p]
  obtain i where i: "i < length (documents c)" "documents c ! i = d" "has_id oid d"
      "\<forall>j<i. \<not> has_id oid (documents c ! j)"
      "fst (update_product L p pid c) = Product_of_doc L (d ++ model_dump p)"
      "documents (snd (update_product L p pid c)) = (documents c)[i := d ++ model_dump p]"
    by blast
  have "Product_of_doc L (d ++ model_dump p) =
      Inr \<lparr>id' = Some (ObjectId_str oid), name = name p, price = price p\<rparr>"
    using i(3) Product_init_valid [OF assms(1)]
    by (intro Product_of_doc_ok) (simp_all add: map_add_dump has_id_def)
  with i show "\<exists>i<length (documents c). documents c ! i = d \<and>
               (\<forall>j<i. \<not> has_id oid (documents c ! j)) \<and>
               fst (PUT_products L body pid c) =
                 Inr \<lparr>id' = Some (ObjectId_str oid), name = name p, price = price p\<rparr> \<and>
               documents (snd (PUT_products L body pid c)) =
                 (documents c)[i := d(''name'' \<mapsto> VStr (name p), ''price'' \<mapsto> VFloat (price p))]"
    using assms(1) by (auto simp: PUT_products_def map_add_dump)
next
  assume f: "lookup_id oid c = None"
  then show "fst (PUT_products L body pid c) = Inl (HTTPException 404 ''Product not found'')"
    using assms
    by (simp add: PUT_products_def update_product_def find_one_and_update_def matches_id
        lookup_id_def Let_def)
  from f show "documents (snd (PUT_products L body pid c)) = documents c"
    using assms
    by (simp add: PUT_products_def update_product_def find_one_and_update_def matches_id
        lookup_id_def Let_def called_def)
qed

text \<open>
  Tea is renamed to milk in a collection that already holds milk, and the update
  succeeds; in the collection without tea it raises 404.
\<close>

theorem update_product_cases_witness:
  "Product_init plain_lib milk_body = Inr milk \<and>
   validate_object_id ''aaaaaaaaaaaaaaaaaaaaaaaa'' = Inr tea_id \<and>
   lookup_id tea_id shop2 = Some tea_doc \<and>
   fst (PUT_products plain_lib milk_body ''aaaaaaaaaaaaaaaaaaaaaaaa'' shop2) =
     Inr \<lparr>id' = Some (ObjectId_str tea_id), name = name milk, price = price milk\<rparr> \<and>
   documents (snd (PUT_products plain_lib milk_body ''aaaaaaaaaaaaaaaaaaaaaaaa'' shop2)) =
     [milk_doc, tea_doc(''name'' \<mapsto> VStr (name milk), ''price'' \<mapsto> VFloat (price milk))] \<and>
   lookup_id tea_id shop = None \<and>
   fst (PUT_products plain_lib milk_body ''aaaaaaaaaaaaaaaaaaaaaaaa'' shop) =
     Inl (HTTPException 404 ''Product not found'') \<and>
   documents (snd (PUT_products plain_lib milk_body ''aaaaaaaaaaaaaaaaaaaaaaaa'' shop)) =
     documents shop"
proof -
  note a = update_product_cases [OF ex_init_milk ex_tea_pid, of shop2, THEN conjunct1,
      THEN spec, THEN mp, OF ex_lookup_tea2]
  note b = update_product_cases [OF ex_init_milk ex_tea_pid, of shop, THEN conjunct2,
      THEN mp, OF ex_lookup_tea]
  from a obtain i where i: "i < length (documents shop2)" "documents shop2 ! i = tea_doc"
    and r: "fst (PUT_products plain_lib milk_body ''aaaaaaaaaaaaaaaaaaaaaaaa'' shop2) =
       Inr \<lparr>id' = Some (ObjectId_str tea_id), name = name milk, price = price milk\<rparr>"
    and d: "documents (snd (PUT_products plain_lib milk_body ''aaaaaaaaaaaaaaaaaaaaaaaa'' shop2)) =
       (documents shop2)[i := tea_doc(''name'' \<mapsto> VStr (name milk), ''price'' \<mapsto> VFloat (price milk))]"
    by blast
  from i(1) have "i = 0 \<or> i = 1" by (auto simp: shop2_def)
  with i(2) ex_docs_differ have "i = 1" by (auto simp: shop2_def)
  with d have d': "documents (snd (PUT_products plain_lib milk_body ''aaaaaaaaaaaaaaaaaaaaaaaa'' shop2)) =
     [milk_doc, tea_doc(''name'' \<mapsto> VStr (name milk), ''price'' \<mapsto> VFloat (price milk))]"
    by (simp add: shop2_def)
  show ?thesis
    by (rule conjI [OF ex_init_milk conjI [OF ex_tea_pid conjI [OF ex_lookup_tea2
        conjI [OF r conjI [OF d' conjI [OF ex_lookup_tea b]]]]]])
qed

text \<open>
  Claim C10.  For an identifier that validates and that some document has, the update
  handler changes one document, the first with the identifier: the collection keeps its
  length, every other position keeps its document, and in the changed document every
  field other than \<^verbatim>\<open>name\<close> and \<^verbatim>\<open>price\<close>, the identifier included, is as before.
\<close>

theorem update_product_frame:
  assumes "validate_object_id pid = Inr oid" and "lookup_id oid c = Some d"
  shows "\<exists>i<length (documents c). documents c ! i = d \<and>
           length (documents (snd (update_product L p pid c))) = length (documents c) \<and>
           (\<forall>j<length (documents c). j \<noteq> i \<longrightarrow>
              documents (snd (update_product L p pid c)) ! j = documents c ! j) \<and>
           (\<forall>k. k \<noteq> ''name'' \<and> k \<noteq> ''price'' \<longrightarrow>
              (documents (snd (update_product L p pid c)) ! i) k = d k) \<and>
           (documents (snd (update_product L p pid c)) ! i) ''_id'' = Some (VObjectId oid)"
proof -
  from update_product_result [OF assms, of L p]
  obtain i where i: "i < length (documents c)" "documents c ! i = d" "has_id oid d"
      "documents (snd (update_product L p pid c)) = (documents c)[i := d ++ model_dump p]"
    by blast
  have "(d ++ model_dump p) ''_id'' = Some (VObjectId oid)"
    using i(3) by (simp add: map_add_dump has_id_def)
  moreover have "\<forall>k. k \<noteq> ''name'' \<and> k \<noteq> ''price'' \<longrightarrow> (d ++ model_dump p) k = d k"
    by (simp add: map_add_dump)
  ultimately show ?thesis
    using i by (intro exI [of _ i]) simp
qed

text \<open>
  The update of tea in the collection of milk and tea.
\<close>

theorem update_product_frame_witness:
  "validate_object_id ''aaaaaaaaaaaaaaaaaaaaaaaa'' = Inr tea_id \<and>
   lookup_id tea_id shop2 = Some tea_doc \<and>
   (\<exists>i<length (documents shop2). documents shop2 ! i = tea_doc \<and>
      length (documents (snd (update_product plain_lib milk ''aaaaaaaaaaaaaaaaaaaaaaaa'' shop2))) =
        length (documents shop2) \<and>
      (\<forall>j<length (documents shop2). j \<noteq> i \<longrightarrow>
         documents (snd (update_product plain_lib milk ''aaaaaaaaaaaaaaaaaaaaaaaa'' shop2)) ! j =
           documents shop2 ! j) \<and>
      (\<forall>k. k \<noteq> ''name'' \<and> k \<noteq> ''price'' \<longrightarrow>
         (documents (snd (update_product plain_lib milk ''aaaaaaaaaaaaaaaaaaaaaaaa'' shop2)) ! i) k =
           tea_doc k) \<and>
      (documents (snd (update_product plain_lib milk ''aaaaaaaaaaaaaaaaaaaaaaaa'' shop2)) ! i) ''_id'' =
        Some (VObjectId tea_id))"
  by (rule conjI [OF ex_tea_pid conjI [OF ex_lookup_tea2
      update_product_frame [OF ex_tea_pid ex_lookup_tea2]]])

section \<open>Delete: claim C7\<close>

text \<open>
  Claim C7.  For an identifier that validates: when exactly one document has it, the
  handler returns the confirmation, the collection afterwards holds the other
  documents in their order, and a second delete of the same identifier raises
  \<^verbatim>\<open>HTTPException(404, "Product not found")\<close>; when no document has it, the handler
  raises that exception and the documents are as before.
\<close>

theorem delete_product_cases:
  assumes "validate_object_id pid = Inr oid"
  shows "(length (filter (has_id oid) (documents c)) = 1 \<longrightarrow>
           fst (delete_product pid c) = Inr [''message'' \<mapsto> ''Product successfully deleted''] \<and>
           documents (snd (delete_product pid c)) = filter (\<lambda>d. \<not> has_id oid d) (documents c) \<and>
           fst (delete_product pid (snd (delete_product pid c))) =
             Inl (HTTPException 404 ''Product not found'')) \<and>
         (filter (has_id oid) (documents c) = [] \<longrightarrow>
           fst (delete_product pid c) = Inl (HTTPException 404 ''Product not found'') \<and>
           documents (snd (delete_product pid c)) = documents c)"
proof (intro conjI impI)
  assume one: "length (filter (has_id oid) (documents c)) = 1"
  then have "filter (has_id oid) (documents c) \<noteq> []" by auto
  then have ex: "list_ex (has_id oid) (documents c)"
    by (simp add: list_ex_iff filter_empty_conv)
  have r: "remove_first (has_id oid) (documents c) = filter (\<lambda>d. \<not> has_id oid d) (documents c)"
    using one by (rule remove_first_single)
  show "fst (delete_product pid c) = Inr [''message'' \<mapsto> ''Product successfully deleted'']"
    using ex by (simp add: delete_product_eq [OF assms])
  show d: "documents (snd (delete_product pid c)) = filter (\<lambda>d. \<not> has_id oid d) (documents c)"
    using ex r by (simp add: delete_product_eq [OF assms] called_def)
  have "\<not> list_ex (has_id oid) (documents (snd (delete_product pid c)))"
    unfolding d by (simp add: list_ex_iff)
  then show "fst (delete_product pid (snd (delete_product pid c))) =
      Inl (HTTPException 404 ''Product not found'')"
    by (simp add: delete_product_eq [OF assms])
next
  assume "filter (has_id oid) (documents c) = []"
  then have nex: "\<not> list_ex (has_id oid) (documents c)"
    by (simp add: list_ex_iff filter_empty_conv)
  then show "fst (delete_product pid c) = Inl (HTTPException 404 ''Product not found'')"
    by (simp add: delete_product_eq [OF assms])
  from nex show "documents (snd (delete_product pid c)) = documents c"
    by (simp add: delete_product_eq [OF assms] called_def)
qed

text \<open>
  Milk is deleted twice from the collection of milk and tea; tea is deleted from the
  collection without tea.
\<close>

theorem delete_product_cases_witness:
  "validate_object_id ''5f9d1b3b9c9d6e1d9c9d6e1d'' = Inr milk_id \<and>
   length (filter (has_id milk_id) (documents shop2)) = 1 \<and>
   fst (delete_product ''5f9d1b3b9c9d6e1d9c9d6e1d'' shop2) =
     Inr [''message'' \<mapsto> ''Product successfully deleted''] \<and>
   documents (snd (delete_product ''5f9d1b3b9c9d6e1d9c9d6e1d'' shop2)) = [tea_doc] \<and>
   fst (delete_product ''5f9d1b3b9c9d6e1d9c9d6e1d''
          (snd (delete_product ''5f9d1b3b9c9d6e1d9c9d6e1d'' shop2))) =
     Inl (HTTPException 404 ''Product not found'') \<and>
   validate_object_id ''aaaaaaaaaaaaaaaaaaaaaaaa'' = Inr tea_id \<and>
   filter (has_id tea_id) (documents shop) = [] \<and>
   fst (delete_product ''aaaaaaaaaaaaaaaaaaaaaaaa'' shop) =
     Inl (HTTPException 404 ''Product not found'') \<and>
   documents (snd (delete_product ''aaaaaaaaaaaaaaaaaaaaaaaa'' shop)) = documents shop"
proof -
  have f: "filter (has_id milk_id) (documents shop2) = [milk_doc]"
    "filter (\<lambda>d. \<not> has_id milk_id d) (documents shop2) = [tea_doc]"
    using ex_ids by (simp_all add: shop2_def has_id_def milk_doc_def tea_doc_def)
  then have one: "length (filter (has_id milk_id) (documents shop2)) = 1" by simp
  have none: "filter (has_id tea_id) (documents shop) = []"
    using ex_ids by (simp add: shop_def has_id_def milk_doc_def)
  note a = delete_product_cases [OF ex_milk_pid, of shop2, THEN conjunct1, THEN mp, OF one]
  note b = delete_product_cases [OF ex_tea_pid, of shop, THEN conjunct2, THEN mp, OF none]
  from a f(2) have a': "fst (delete_product ''5f9d1b3b9c9d6e1d9c9d6e1d'' shop2) =
     Inr [''message'' \<mapsto> ''Product successfully deleted''] \<and>
   documents (snd (delete_product ''5f9d1b3b9c9d6e1d9c9d6e1d'' shop2)) = [tea_doc] \<and>
   fst (delete_product ''5f9d1b3b9c9d6e1d9c9d6e1d''
          (snd (delete_product ''5f9d1b3b9c9d6e1d9c9d6e1d'' shop2))) =
     Inl (HTTPException 404 ''Product not found'')"
    by simp
  show ?thesis
    by (rule conjI [OF ex_milk_pid conjI [OF one conjI [OF a' [THEN conjunct1]
        conjI [OF a' [THEN conjunct2, THEN conjunct1] conjI [OF a' [THEN conjunct2, THEN conjunct2]
        conjI [OF ex_tea_pid conjI [OF none b]]]]]]])
qed

section \<open>The invariant of the collection: claim C4\<close>

text \<open>
  Claim C4.  When every document of a collection is a valid product document (a name
  of one or more alphabetic characters, a price greater than zero), so is every
  document of the collection after any sequence of create, update and delete
  requests, whatever their bodies and identifiers.
\<close>

theorem handle_all_valid:
  assumes "\<forall>d\<in>set (documents c). valid_doc d"
  shows "\<forall>d\<in>set (documents (handle_all L rs c)). valid_doc d"
  using assms
proof (induction rs arbitrary: c)
  case Nil
  then show ?case by simp
next
  case (Cons r rs)
  from handle_valid [OF Cons.prems, of L r] have "\<forall>d\<in>set (documents (handle L r c)). valid_doc d" .
  from Cons.IH [OF this] show ?case by simp
qed

text \<open>
  Two creates, two updates and a delete, two of them with an invalid body.
\<close>

theorem handle_all_valid_witness:
  "list_all valid_doc (documents shop) \<and>
   list_all valid_doc
     (documents (handle_all plain_lib
        [Create tea_id tea_body, Create tea_id free_body,
         Update free_body ''5f9d1b3b9c9d6e1d9c9d6e1d'', Update tea_body ''5f9d1b3b9c9d6e1d9c9d6e1d'',
         Delete ''aaaaaaaaaaaaaaaaaaaaaaaa''] shop))"
proof -
  have h: "list_all valid_doc (documents shop)"
    using ex_valid_milk by (simp add: shop_def)
  note t = handle_all_valid [OF h [unfolded list_all_iff], folded list_all_iff]
  show ?thesis by (rule conjI [OF h t])
qed

end
